theory Spec2Isabelle
  imports Main "HOL-Library.Multiset"
begin

section \<open>Python values and exceptions\<close>

text \<open>
  The module \<open>gpys\<close> signals failure in three ways: it lets an exception propagate, it
  catches \<open>ConnectionError\<close> or \<open>Exception\<close> and calls \<open>sys.exit(1)\<close>, which raises
  \<open>SystemExit\<close>, or it returns a falsy value. \<open>SystemExit\<close> derives from \<open>BaseException\<close>
  and is therefore caught by neither \<open>except ConnectionError\<close> nor \<open>except Exception\<close>.
  \<open>Exception cls msg\<close> stands for an instance of a subclass of \<open>Exception\<close> other than
  \<open>ConnectionError\<close>, with class name \<open>cls\<close> and \<open>str(e) = msg\<close>.
\<close>

datatype exn = ConnectionError string | Exception string string | SystemExit nat

fun is_Exception :: "exn \<Rightarrow> bool" where
  "is_Exception (ConnectionError m) = True"
| "is_Exception (Exception c m) = True"
| "is_Exception (SystemExit n) = False"

fun is_ConnectionError :: "exn \<Rightarrow> bool" where
  "is_ConnectionError (ConnectionError m) = True"
| "is_ConnectionError (Exception c m) = False"
| "is_ConnectionError (SystemExit n) = False"

text \<open>\<open>str(e)\<close> and \<open>str(type(e))\<close>, as \<open>'{} {}'.format(type(e), e)\<close> renders them.\<close>

fun exn_str :: "exn \<Rightarrow> string" where
  "exn_str (ConnectionError m) = m"
| "exn_str (Exception c m) = m"
| "exn_str (SystemExit n) = (if n = 1 then ''1'' else ''?'')"

definition type_repr :: "string \<Rightarrow> string" where
  "type_repr cls = ''<class '' @ [CHR 0x27] @ cls @ [CHR 0x27] @ ''>''"

fun exn_type :: "exn \<Rightarrow> string" where
  "exn_type (ConnectionError m) = type_repr ''ConnectionError''"
| "exn_type (Exception c m) = type_repr c"
| "exn_type (SystemExit n) = type_repr ''SystemExit''"

text \<open>
  An argument handed to a filename parser: a \<open>str\<close> (a list of code points, here those
  below 256) or any other object, on which \<open>re.findall\<close> raises \<open>TypeError\<close>.
\<close>

datatype pyval = PyStr string | PyNonStr

text \<open>
  What a filename parser returns: the tuple of captured groups of the first match, \<open>None\<close>
  (\<open>parse_crinex_filename\<close>) or the empty list (\<open>parse_rinex_filename\<close>).
\<close>

datatype parsed = Groups "string list" | PyNone | EmptyList

fun truthy :: "parsed \<Rightarrow> bool" where
  "truthy (Groups gs) = (gs \<noteq> [])"
| "truthy PyNone = False"
| "truthy EmptyList = False"

section \<open>The regular expressions of the filename parsers\<close>

text \<open>
  Both patterns are sequences of fixed-width items: a character class repeated an exact
  number of times, captured or not, and a final \<open>$\<close>. \<open>Word\<close> is \<open>\w\<close>, \<open>Digit\<close> is \<open>\d\<close>,
  \<open>Lit c\<close> an escaped literal, \<open>OneOf cs\<close> a bracket set.
\<close>

datatype atom = Word | Digit | Lit char | OneOf "char list"

datatype piece = Capture atom nat | Plain atom nat | EndAnchor

text \<open>\<open>\d\<close> on a \<open>str\<close>: the decimal digits; below code point 256 these are \<open>0\<close> to \<open>9\<close>.\<close>

definition is_digit :: "char \<Rightarrow> bool" where
  "is_digit c \<longleftrightarrow> (48::nat) \<le> of_char c \<and> of_char c \<le> (57::nat)"

text \<open>
  \<open>\w\<close> on a \<open>str\<close>: alphanumeric code points and the underscore; below 256 these are the
  ASCII letters and digits, \<open>_\<close>, and the Latin-1 letters and numeric signs.
\<close>

definition is_word :: "char \<Rightarrow> bool" where
  "is_word c \<longleftrightarrow>
     (let n = (of_char c :: nat) in
        (48 \<le> n \<and> n \<le> 57) \<or> (65 \<le> n \<and> n \<le> 90) \<or> n = 95 \<or> (97 \<le> n \<and> n \<le> 122)
        \<or> n = 170 \<or> n = 178 \<or> n = 179 \<or> n = 181 \<or> n = 185 \<or> n = 186
        \<or> (188 \<le> n \<and> n \<le> 190) \<or> (192 \<le> n \<and> n \<le> 214) \<or> (216 \<le> n \<and> n \<le> 246)
        \<or> 248 \<le> n)"

fun accepts :: "atom \<Rightarrow> char \<Rightarrow> bool" where
  "accepts Word c = is_word c"
| "accepts Digit c = is_digit c"
| "accepts (Lit l) c = (c = l)"
| "accepts (OneOf cs) c = (c \<in> set cs)"

text \<open>
  Matching a pattern at the start of \<open>s\<close>: the captured groups in order and the unread
  rest, or \<open>None\<close>. Without \<open>re.MULTILINE\<close>, \<open>$\<close> holds at the end of the string and just
  before a newline that is the last character.
\<close>

fun match_here :: "piece list \<Rightarrow> string \<Rightarrow> (string list \<times> string) option" where
  "match_here [] s = Some ([], s)"
| "match_here (Capture a n # ps) s =
     (if n \<le> length s \<and> list_all (accepts a) (take n s)
      then (case match_here ps (drop n s) of
              None \<Rightarrow> None
            | Some (gs, rest) \<Rightarrow> Some (take n s # gs, rest))
      else None)"
| "match_here (Plain a n # ps) s =
     (if n \<le> length s \<and> list_all (accepts a) (take n s)
      then match_here ps (drop n s)
      else None)"
| "match_here (EndAnchor # ps) s =
     (if s = [] \<or> s = [CHR 0x0A] then match_here ps s else None)"

text \<open>
  \<open>re.findall\<close>: scan from the left; at each position try the pattern; after a match go on
  behind it (one character further when the match was empty), otherwise one character
  further. With several groups each match contributes the tuple of its groups.
\<close>

fun findall :: "piece list \<Rightarrow> string \<Rightarrow> string list list" where
  "findall p s =
     (case match_here p s of
        None \<Rightarrow> (case s of [] \<Rightarrow> [] | c # cs \<Rightarrow> findall p cs)
      | Some (gs, rest) \<Rightarrow>
          gs # (if length rest < length s then findall p rest
                else (case s of [] \<Rightarrow> [] | c # cs \<Rightarrow> findall p cs)))"

declare findall.simps [simp del]

definition re_findall :: "piece list \<Rightarrow> pyval \<Rightarrow> exn + string list list" where
  "re_findall p v =
     (case v of
        PyStr s \<Rightarrow> Inr (findall p s)
      | PyNonStr \<Rightarrow> Inl (Exception ''TypeError'' ''expected string or bytes-like object''))"

text \<open>\<open>r'(\w{4})(\d{3})(\w{1})\.(\d{2})([d])\.[Z]$'\<close>\<close>

definition crinex_pattern :: "piece list" where
  "crinex_pattern =
     [Capture Word 4, Capture Digit 3, Capture Word 1, Plain (Lit CHR ''.'') 1,
      Capture Digit 2, Capture (OneOf ''d'') 1, Plain (Lit CHR ''.'') 1,
      Plain (OneOf ''Z'') 1, EndAnchor]"

text \<open>\<open>r'(\w{4})(\d{3})(\w{1})\.(\d{2})([o])$'\<close>\<close>

definition rinex_pattern :: "piece list" where
  "rinex_pattern =
     [Capture Word 4, Capture Digit 3, Capture Word 1, Plain (Lit CHR ''.'') 1,
      Capture Digit 2, Capture (OneOf ''o'') 1, EndAnchor]"

section \<open>RinexArchive: the filename parsers\<close>

text \<open>
  A call that prints returns the printed lines next to its result; \<open>Inl\<close> is a raised
  exception. \<open>parse_crinex_filename\<close> wraps its body in \<open>try\<close> and turns any \<open>Exception\<close>
  into a printed line and \<open>sys.exit(1)\<close>; \<open>parse_rinex_filename\<close> has no handler.
\<close>

definition uncaught_line :: "string \<Rightarrow> exn \<Rightarrow> string" where
  "uncaught_line intro e = intro @ exn_type e @ '' '' @ exn_str e"

definition parse_crinex_filename :: "pyval \<Rightarrow> string list \<times> (exn + parsed)" where
  "parse_crinex_filename filename =
     (case re_findall crinex_pattern filename of
        Inr sfile \<Rightarrow>
          (case sfile of
             g # _ \<Rightarrow> ([], Inr (Groups g))
           | [] \<Rightarrow> ([], Inr PyNone))
      | Inl e \<Rightarrow>
          (if is_Exception e
           then ([uncaught_line ''Uncaught exception: '' e], Inl (SystemExit 1))
           else ([], Inl e)))"

definition parse_rinex_filename :: "pyval \<Rightarrow> exn + parsed" where
  "parse_rinex_filename filename =
     (case re_findall rinex_pattern filename of
        Inr sfile \<Rightarrow>
          (case sfile of
             g # _ \<Rightarrow> Inr (Groups g)
           | [] \<Rightarrow> Inr EmptyList)
      | Inl e \<Rightarrow> Inl e)"

text \<open>
  The two forms of section 4.1 of the specification, read as a description of the whole
  string, with the station code and the session letter made of word characters as the
  patterns require.
\<close>

definition compressed_form :: "string \<Rightarrow> bool" where
  "compressed_form m \<longleftrightarrow>
     length m = 14 \<and> list_all is_word (take 4 m) \<and> list_all is_digit (take 3 (drop 4 m))
     \<and> is_word (m ! 7) \<and> m ! 8 = CHR ''.'' \<and> list_all is_digit (take 2 (drop 9 m))
     \<and> m ! 11 = CHR ''d'' \<and> m ! 12 = CHR ''.'' \<and> m ! 13 = CHR ''Z''"

definition plain_form :: "string \<Rightarrow> bool" where
  "plain_form m \<longleftrightarrow>
     length m = 12 \<and> list_all is_word (take 4 m) \<and> list_all is_digit (take 3 (drop 4 m))
     \<and> is_word (m ! 7) \<and> m ! 8 = CHR ''.'' \<and> list_all is_digit (take 2 (drop 9 m))
     \<and> m ! 11 = CHR ''o''"

section \<open>RinexArchive: scanning the archive\<close>

text \<open>
  The directory tree that \<open>os.scandir\<close> and \<open>os.path.isdir\<close> show to the scan. A
  directory either lists its entries, in the order \<open>os.scandir\<close> yields them, or
  \<open>os.scandir\<close> raises on it an \<open>OSError\<close> of class \<open>cls\<close> with message \<open>msg\<close>. \<open>File\<close> is
  any entry for which \<open>os.path.isdir\<close> is false.
\<close>

datatype fsnode = File string | Dir string dir
  and dir = Listing "fsnode list" | Fails string string

text \<open>An \<open>os.DirEntry\<close>: the two attributes the module reads.\<close>

record dir_entry =
  name :: string
  path :: string

text \<open>\<open>entry.path\<close> is \<open>os.path.join(rootdir, entry.name)\<close> (POSIX rules).\<close>

definition path_join :: "string \<Rightarrow> string \<Rightarrow> string" where
  "path_join a b =
     (if b \<noteq> [] \<and> hd b = CHR ''/'' then b
      else if a = [] \<or> last a = CHR ''/'' then a @ b
      else a @ ''/'' @ b)"

definition DirEntry :: "string \<Rightarrow> string \<Rightarrow> dir_entry" where
  "DirEntry rootdir n = \<lparr>name = n, path = path_join rootdir n\<rparr>"

text \<open>
  The handler \<open>except Exception as e: print(...); sys.exit(1)\<close> of \<open>scan_archive_struct\<close>,
  applied to an exception that reaches it: an \<open>Exception\<close> is printed and replaced by
  \<open>SystemExit(1)\<close>, anything else passes.
\<close>

definition scan_handler :: "exn \<Rightarrow> string list \<times> (exn + dir_entry list)" where
  "scan_handler e =
     (if is_Exception e
      then ([uncaught_line ''Uncaught Exception: '' e], Inl (SystemExit 1))
      else ([], Inl e))"

text \<open>
  \<open>scan_archive_struct rootdir d\<close> is the method on a directory \<open>rootdir\<close> whose content is
  \<open>d\<close>; \<open>scan_entries\<close> is its \<open>for\<close> loop with the list \<open>file\<close> built so far. The result
  is the printed lines and either the returned list or the exception that leaves the
  call. A sub-directory is entered by a recursive call, whose \<open>SystemExit\<close> passes through
  the caller's handler; a name is kept when \<open>parse_crinex_filename\<close> returns a truthy
  value.
\<close>

fun scan_archive_struct :: "string \<Rightarrow> dir \<Rightarrow> string list \<times> (exn + dir_entry list)"
  and scan_entries :: "string \<Rightarrow> fsnode list \<Rightarrow> dir_entry list \<Rightarrow> string list \<times> (exn + dir_entry list)"
where
  "scan_archive_struct rootdir (Fails cls msg) = scan_handler (Exception cls msg)"
| "scan_archive_struct rootdir (Listing es) =
     (case scan_entries rootdir es [] of
        (out, Inl e) \<Rightarrow> (case scan_handler e of (out', r) \<Rightarrow> (out @ out', r))
      | (out, Inr file) \<Rightarrow> (out, Inr file))"
| "scan_entries rootdir [] file = ([], Inr file)"
| "scan_entries rootdir (Dir n d # es) file =
     (case scan_archive_struct (path_join rootdir n) d of
        (out, Inl e) \<Rightarrow> (out, Inl e)
      | (out, Inr sub) \<Rightarrow>
          (case scan_entries rootdir es (file @ sub) of (out', r) \<Rightarrow> (out @ out', r)))"
| "scan_entries rootdir (File n # es) file =
     (case parse_crinex_filename (PyStr n) of
        (out, Inl e) \<Rightarrow> (out, Inl e)
      | (out, Inr v) \<Rightarrow>
          (case scan_entries rootdir es (if truthy v then file @ [DirEntry rootdir n] else file)
           of (out', r) \<Rightarrow> (out @ out', r)))"

text \<open>
  For stating what a scan returns: every directory of the tree can be listed; the files
  of the tree in traversal order; the first directory, in traversal order, that cannot
  be listed; a name that the scan keeps.
\<close>

fun readable :: "dir \<Rightarrow> bool"
  and readable_nodes :: "fsnode list \<Rightarrow> bool"
where
  "readable (Fails cls msg) = False"
| "readable (Listing es) = readable_nodes es"
| "readable_nodes [] = True"
| "readable_nodes (Dir n d # es) = (readable d \<and> readable_nodes es)"
| "readable_nodes (File n # es) = readable_nodes es"

fun files_in :: "string \<Rightarrow> dir \<Rightarrow> dir_entry list"
  and files_among :: "string \<Rightarrow> fsnode list \<Rightarrow> dir_entry list"
where
  "files_in rootdir (Fails cls msg) = []"
| "files_in rootdir (Listing es) = files_among rootdir es"
| "files_among rootdir [] = []"
| "files_among rootdir (Dir n d # es) = files_in (path_join rootdir n) d @ files_among rootdir es"
| "files_among rootdir (File n # es) = DirEntry rootdir n # files_among rootdir es"

fun first_failure :: "dir \<Rightarrow> (string \<times> string) option"
  and first_failure_nodes :: "fsnode list \<Rightarrow> (string \<times> string) option"
where
  "first_failure (Fails cls msg) = Some (cls, msg)"
| "first_failure (Listing es) = first_failure_nodes es"
| "first_failure_nodes [] = None"
| "first_failure_nodes (Dir n d # es) =
     (case first_failure d of Some f \<Rightarrow> Some f | None \<Rightarrow> first_failure_nodes es)"
| "first_failure_nodes (File n # es) = first_failure_nodes es"

definition crinex_named :: "dir_entry \<Rightarrow> bool" where
  "crinex_named e =
     (case parse_crinex_filename (PyStr (name e)) of
        (out, Inr v) \<Rightarrow> truthy v
      | (out, Inl x) \<Rightarrow> False)"

text \<open>
  Two trees that differ only in the order in which directories list their entries.
\<close>

inductive reordered :: "dir \<Rightarrow> dir \<Rightarrow> bool"
  and reordered_nodes :: "fsnode list \<Rightarrow> fsnode list \<Rightarrow> bool"
where
  same_failure: "reordered (Fails cls msg) (Fails cls msg)"
| same_listing: "reordered_nodes es es' \<Longrightarrow> reordered (Listing es) (Listing es')"
| no_entries: "reordered_nodes [] []"
| same_file: "reordered_nodes es es' \<Longrightarrow> reordered_nodes (File n # es) (File n # es')"
| same_subdir: "reordered d d' \<Longrightarrow> reordered_nodes es es' \<Longrightarrow>
           reordered_nodes (Dir n d # es) (Dir n d' # es')"
| swapped: "reordered_nodes (x # y # es) (y # x # es)"
| composed: "reordered_nodes es es' \<Longrightarrow> reordered_nodes es' es'' \<Longrightarrow> reordered_nodes es es''"

text \<open>Trees used as concrete inputs below.\<close>

definition tree_locked :: dir where
  "tree_locked =
     Listing [Dir ''a'' (Listing [File ''abcd001a.21d.Z'']),
              Dir ''locked'' (Fails ''PermissionError'' ''[Errno 13] Permission denied''),
              Dir ''b'' (Listing [File ''efgh002a.21d.Z''])]"

definition tree_mixed :: dir where
  "tree_mixed =
     Listing [File ''abcd001a.21d.Z'', File ''readme.txt'',
              Dir ''2021'' (Listing [File ''efgh002a.21d.Z'', File ''abcd001a.21o'',
                                     Dir ''003'' (Listing [File ''ijkl003a.21d.Z''])])]"

definition tree_mixed_reordered :: dir where
  "tree_mixed_reordered =
     Listing [File ''readme.txt'', File ''abcd001a.21d.Z'',
              Dir ''2021'' (Listing [File ''efgh002a.21d.Z'', File ''abcd001a.21o'',
                                     Dir ''003'' (Listing [File ''ijkl003a.21d.Z''])])]"

definition tree_plain :: dir where
  "tree_plain = Listing [File ''abcd001a.21o'']"


section \<open>JobServer\<close>

subsection \<open>The cluster backend and what is observed of a run\<close>

text \<open>
  Modelled from the spec: the outcome of a job (\<open>JobResult\<close> of section 3). The job
  objects belong to the dispy library, which is not part of the module; \<open>cluster_test\<close>
  reads only their attribute \<open>result\<close>. A \<open>job\<close> is what the backend holds for a submitted
  job once the wait is over: \<open>result\<close> is the text of \<open>str(j.result)\<close>.
\<close>

datatype outcome = Success string | Failure string | TimedOut

record job =
  job_id :: string
  result :: string
  outcome :: outcome

text \<open>
  The options that \<open>JobServer\<close> reads from the dictionary \<open>ReadOptions\<close> built:
  \<open>ping_interval\<close> is the value of \<open>int(self.options['ping_interval'])\<close>.
\<close>

record options =
  head_node :: string
  ping_interval :: int
  node_list :: "string list"

text \<open>
  What the module does to the outside, in order: log records of \<open>head_logger\<close>, calls of
  the backend (with the cluster object they are made on, numbered in the order of
  creation) and sleeps (in milliseconds).
\<close>

datatype call =
    JobCluster nat
  | DiscoverNodes nat string
  | SubmitJobIdNode nat string string
  | Wait nat
  | Shutdown nat

datatype event = Debug string | Error string | Call call | Sleep int

fun is_JobCluster :: "event \<Rightarrow> bool" where
  "is_JobCluster (Call (JobCluster c)) = True"
| "is_JobCluster _ = False"

fun is_Wait :: "event \<Rightarrow> bool" where
  "is_Wait (Call (Wait c)) = True"
| "is_Wait _ = False"

fun is_Shutdown :: "event \<Rightarrow> bool" where
  "is_Shutdown (Call (Shutdown c)) = True"
| "is_Shutdown _ = False"

definition cluster_count :: "event list \<Rightarrow> nat" where
  "cluster_count tr = length (filter is_JobCluster tr)"

definition wait_count :: "event list \<Rightarrow> nat" where
  "wait_count tr = length (filter is_Wait tr)"

definition shutdown_count :: "event list \<Rightarrow> nat" where
  "shutdown_count tr = length (filter is_Shutdown tr)"

text \<open>
  The backend answers each call: \<open>None\<close> or \<open>Inr\<close> is a normal return, \<open>Some e\<close> or \<open>Inl e\<close>
  a raised exception. Creating a cluster, \<open>wait()\<close> and \<open>shutdown()\<close> are answered by the
  number of earlier calls of the same kind; \<open>submit_job_id_node\<close> returns a job or \<open>None\<close>.
  \<open>took\<close> is the text of \<open>'{:.4}'.format(tend - tstart)\<close>.
\<close>

record backend =
  new_cluster :: "nat \<Rightarrow> exn option"
  discover :: "string \<Rightarrow> exn option"
  submit :: "string \<Rightarrow> string \<Rightarrow> exn + job option"
  wait_reply :: "nat \<Rightarrow> exn + bool"
  shutdown_reply :: "nat \<Rightarrow> exn option"
  took :: string

text \<open>
  A \<open>JobServer\<close> object (\<open>cluster\<close> is \<open>None\<close> or a \<open>dispy.JobCluster\<close>) together with the
  events so far.
\<close>

record jobserver =
  options :: options
  cluster :: "nat option"
  tested :: bool
  trace :: "event list"

definition emit :: "event list \<Rightarrow> jobserver \<Rightarrow> jobserver" where
  "emit es s = s\<lparr>trace := trace s @ es\<rparr>"

text \<open>\<open>str\<close> of an integer.\<close>

fun str_nat :: "nat \<Rightarrow> string" where
  "str_nat n =
     (if n < 10 then [char_of (48 + n)] else str_nat (n div 10) @ [char_of (48 + n mod 10)])"

declare str_nat.simps [simp del]

definition str_int :: "int \<Rightarrow> string" where
  "str_int i = (if i < 0 then ''-'' @ str_nat (nat (- i)) else str_nat (nat i))"

subsection \<open>connect\<close>

text \<open>
  The loop over \<open>node_list\<close> in \<open>connect\<close>: a discovery request, a log record, and a sleep
  of twice the ping interval, which raises \<open>ValueError\<close> on a negative length.
\<close>

fun discover_all :: "backend \<Rightarrow> options \<Rightarrow> nat \<Rightarrow> string list \<Rightarrow> event list \<Rightarrow> exn option \<times> event list" where
  "discover_all b opts c [] tr = (None, tr)"
| "discover_all b opts c (node # nodes) tr =
     (case discover b node of
        Some e \<Rightarrow> (Some e, tr @ [Call (DiscoverNodes c node)])
      | None \<Rightarrow>
          (let tr1 = tr @ [Call (DiscoverNodes c node),
                           Debug (''Waiting '' @ str_int (2 * ping_interval opts) @ '' seconds.'')]
           in if 2 * ping_interval opts < 0
              then (Some (Exception ''ValueError'' ''sleep length must be non-negative''), tr1)
              else discover_all b opts c nodes (tr1 @ [Sleep (2000 * ping_interval opts)])))"

text \<open>
  The handlers shared by \<open>connect\<close> and \<open>cluster_test\<close>: \<open>except ConnectionError\<close> logs the
  exception, \<open>except Exception\<close> logs it as uncaught, both call \<open>sys.exit(1)\<close>.
\<close>

definition exit_handlers :: "exn \<Rightarrow> jobserver \<Rightarrow> exn option \<times> jobserver" where
  "exit_handlers e s =
     (if is_ConnectionError e then (Some (SystemExit 1), emit [Error (exn_str e)] s)
      else if is_Exception e
      then (Some (SystemExit 1), emit [Error (uncaught_line ''Uncaught Exception: '' e)] s)
      else (Some e, s))"

definition connect :: "backend \<Rightarrow> jobserver \<Rightarrow> exn option \<times> jobserver" where
  "connect b s =
     (let s0 = emit [Debug ''Testing out the cluster.''] s;
          c = cluster_count (trace s0);
          s1 = emit [Call (JobCluster c)] s0
      in case new_cluster b c of
           Some e \<Rightarrow> exit_handlers e s1
         | None \<Rightarrow>
             (let s2 = s1\<lparr>cluster := Some c\<rparr>
              in case discover_all b (options s2) c (node_list (options s2)) (trace s2) of
                   (Some e, tr) \<Rightarrow> exit_handlers e (s2\<lparr>trace := tr\<rparr>)
                 | (None, tr) \<Rightarrow> (None, s2\<lparr>trace := tr\<rparr>)))"

subsection \<open>cluster_test\<close>

text \<open>\<open>'InitialTest-{}'.format(node)\<close>\<close>

definition probe_id :: "string \<Rightarrow> string" where
  "probe_id node = ''InitialTest-'' @ node"

text \<open>The submission loop: one job per node, every returned value appended to \<open>jobs\<close>.\<close>

fun submit_all :: "backend \<Rightarrow> nat \<Rightarrow> string list \<Rightarrow> job option list \<Rightarrow> event list
    \<Rightarrow> exn option \<times> job option list \<times> event list" where
  "submit_all b c [] jobs tr = (None, jobs, tr)"
| "submit_all b c (node # nodes) jobs tr =
     (let tr1 = tr @ [Debug (''Sending job to '' @ node),
                      Call (SubmitJobIdNode c (probe_id node) node)]
      in case submit b (probe_id node) node of
           Inl e \<Rightarrow> (Some e, jobs, tr1)
         | Inr j \<Rightarrow> submit_all b c nodes (jobs @ [j]) tr1)"

text \<open>\<open>jobs.index(None)\<close> and a list subscript, with their exceptions.\<close>

fun index_of :: "'a \<Rightarrow> 'a list \<Rightarrow> nat option" where
  "index_of x [] = None"
| "index_of x (y # ys) = (if y = x then Some 0 else map_option Suc (index_of x ys))"

definition subscript :: "'a list \<Rightarrow> nat \<Rightarrow> exn + 'a" where
  "subscript xs i =
     (if i < length xs then Inr (xs ! i)
      else Inl (Exception ''IndexError'' ''list index out of range''))"

definition submit_error :: "string \<Rightarrow> string" where
  "submit_error node =
     ''Error while submitting job.  The server may not be started on '' @ node @ ''.''"

definition null_handle_error :: "string list \<Rightarrow> job option list \<Rightarrow> exn" where
  "null_handle_error nodes jobs =
     (case index_of None jobs of
        None \<Rightarrow> Exception ''ValueError'' ''None is not in list''
      | Some i \<Rightarrow>
          (case subscript nodes i of
             Inl e \<Rightarrow> e
           | Inr node \<Rightarrow> ConnectionError (submit_error node)))"

text \<open>
  \<open>while not self.cluster.wait(): time.sleep(0.1)\<close>. The loop has no bound of its own:
  \<open>None\<close> is a run that never leaves it.
\<close>

partial_function (option) wait_loop :: "backend \<Rightarrow> nat \<Rightarrow> event list \<Rightarrow> (exn option \<times> event list) option" where
  "wait_loop b c tr =
     (case wait_reply b (wait_count tr) of
        Inl e \<Rightarrow> Some (Some e, tr @ [Call (Wait c)])
      | Inr done \<Rightarrow>
          if done then Some (None, tr @ [Call (Wait c)])
          else wait_loop b c (tr @ [Call (Wait c), Sleep 100]))"

declare wait_loop.simps [code]

text \<open>\<open>for j in jobs\<close>: reading \<open>j.result\<close> of \<open>None\<close> would raise \<open>AttributeError\<close>.\<close>

fun log_results :: "job option list \<Rightarrow> event list \<Rightarrow> exn option \<times> event list" where
  "log_results [] tr = (None, tr)"
| "log_results (None # js) tr =
     (Some (Exception ''AttributeError''
        (''NoneType'' @ [CHR 0x27] @ '' object has no attribute '' @ [CHR 0x27] @ ''result'' @ [CHR 0x27])), tr)"
| "log_results (Some j # js) tr =
     log_results js (tr @ [Debug (''Node worked! '' @ result j @ ''.'')])"

text \<open>
  The \<open>try\<close> block of \<open>cluster_test\<close> behind the call of \<open>connect\<close>, on the cluster \<open>c\<close>
  that \<open>self.cluster\<close> holds: submissions, the check for a null handle, the wait and the
  log records that follow it, up to the exception that leaves the block, if any.
\<close>

definition submit_and_wait :: "backend \<Rightarrow> nat \<Rightarrow> jobserver \<Rightarrow> (exn option \<times> jobserver) option" where
  "submit_and_wait b c s1 =
     (case submit_all b c (node_list (options s1)) [] (trace s1) of
        (Some e, jobs, tr) \<Rightarrow> Some (Some e, s1\<lparr>trace := tr\<rparr>)
      | (None, jobs, tr) \<Rightarrow>
          if None \<in> set jobs
          then Some (Some (null_handle_error (node_list (options s1)) jobs), s1\<lparr>trace := tr\<rparr>)
          else
            (case wait_loop b c tr of
               None \<Rightarrow> None
             | Some (Some e, tr1) \<Rightarrow> Some (Some e, s1\<lparr>trace := tr1\<rparr>)
             | Some (None, tr1) \<Rightarrow>
                 (case log_results jobs (tr1 @ [Debug (''Jobs took '' @ took b @ '' seconds.'')]) of
                    (Some e, tr2) \<Rightarrow> Some (Some e, s1\<lparr>trace := tr2\<rparr>)
                  | (None, tr2) \<Rightarrow>
                      Some (None,
                        s1\<lparr>tested := True,
                           trace := tr2
                             @ map (\<lambda>node. Debug (''Sending files to '' @ node @ ''.''))
                                 (node_list (options s1))
                             @ [Debug ''Started a Dispy job and it worked :D'']\<rparr>))))"

text \<open>
  The whole \<open>try\<close> block: the first log record, \<open>connect\<close>, then the rest on
  \<open>self.cluster\<close> (a call on \<open>None\<close> would raise \<open>AttributeError\<close>).
\<close>

definition cluster_test_body :: "backend \<Rightarrow> jobserver \<Rightarrow> (exn option \<times> jobserver) option" where
  "cluster_test_body b s =
     (case connect b (emit [Debug ''Testing out the cluster.''] s) of
        (Some e, s1) \<Rightarrow> Some (Some e, s1)
      | (None, s1) \<Rightarrow>
          (case cluster s1 of
             None \<Rightarrow> Some (Some (Exception ''AttributeError''
                        (''NoneType'' @ [CHR 0x27] @ '' object has no attribute ''
                         @ [CHR 0x27] @ ''submit_job_id_node'' @ [CHR 0x27])), s1)
           | Some c \<Rightarrow> submit_and_wait b c s1))"

text \<open>
  The \<open>finally\<close> clause of \<open>cluster_test\<close>: it runs on every way out of the \<open>try\<close>
  statement; an exception of \<open>shutdown()\<close> replaces the pending one.
\<close>

definition finally_shutdown :: "backend \<Rightarrow> exn option \<times> jobserver \<Rightarrow> exn option \<times> jobserver" where
  "finally_shutdown b rs =
     (case rs of (r, s) \<Rightarrow>
        (let s1 = emit [Debug ''Shutting down cluster.''] s
         in case cluster s1 of
              None \<Rightarrow> (r, s1)
            | Some c \<Rightarrow>
                (case shutdown_reply b (shutdown_count (trace s1)) of
                   None \<Rightarrow> (r, emit [Call (Shutdown c)] s1)
                 | Some e \<Rightarrow> (Some e, emit [Call (Shutdown c)] s1))))"

definition cluster_test :: "backend \<Rightarrow> jobserver \<Rightarrow> (exn option \<times> jobserver) option" where
  "cluster_test b s =
     (case cluster_test_body b s of
        None \<Rightarrow> None
      | Some (None, s1) \<Rightarrow> Some (finally_shutdown b (None, s1))
      | Some (Some e, s1) \<Rightarrow> Some (finally_shutdown b (exit_handlers e s1)))"

subsection \<open>Construction and destruction\<close>

text \<open>
  \<open>JobServer.__init__\<close>, started after the events \<open>tr\<close>, and \<open>JobServer.__del__\<close>.
\<close>

definition JobServer_init :: "backend \<Rightarrow> options \<Rightarrow> event list \<Rightarrow> (exn option \<times> jobserver) option" where
  "JobServer_init b opts tr =
     (case cluster_test b \<lparr>options = opts, cluster = None, tested = False, trace = tr\<rparr> of
        None \<Rightarrow> None
      | Some (Some e, s) \<Rightarrow> Some (Some e, s)
      | Some (None, s) \<Rightarrow>
          if tested s = False
          then Some (Some (ConnectionError ''Connection failed in JobServer.__init__''), s)
          else Some (None, s))"

definition JobServer_del :: "backend \<Rightarrow> jobserver \<Rightarrow> exn option \<times> jobserver" where
  "JobServer_del b s =
     (let s1 = emit [Debug ''Attempting to shut down the cluster.''] s
      in case cluster s1 of
           Some c \<Rightarrow>
             (case shutdown_reply b (shutdown_count (trace s1)) of
                None \<Rightarrow> (None, emit [Call (Shutdown c), Debug ''Cluster successfully shut down.''] s1)
              | Some e \<Rightarrow>
                  (if is_Exception e
                   then (Some (SystemExit 1),
                         emit [Call (Shutdown c), Error (uncaught_line ''Uncaught Exception: '' e)] s1)
                   else (Some e, emit [Call (Shutdown c)] s1)))
         | None \<Rightarrow> (None, emit [Debug ''Cluster was not started.''] s1))"


text \<open>
  The life of an object that nobody keeps: \<open>__init__\<close>, then, when it returned, \<open>__del__\<close>
  on the object it built; and \<open>__del__\<close> invoked twice in a row.
\<close>

definition del_after_init :: "backend \<Rightarrow> options \<Rightarrow> (exn option \<times> jobserver) option" where
  "del_after_init b opts =
     (case JobServer_init b opts [] of
        None \<Rightarrow> None
      | Some (r, s) \<Rightarrow> Some (JobServer_del b s))"

definition del_twice :: "backend \<Rightarrow> jobserver \<Rightarrow> exn option \<times> jobserver" where
  "del_twice b s = JobServer_del b (snd (JobServer_del b s))"

definition shutdown_calls :: "jobserver \<Rightarrow> event list" where
  "shutdown_calls s = filter is_Shutdown (trace s)"

subsection \<open>Conditions on a run, and concrete runs\<close>

text \<open>
  The conditions under which the phases of \<open>cluster_test\<close> go through, stated on the
  backend and the state before the call: the cluster is created and every node
  discovered without an exception (and the sleep length is not negative); every
  submission returns, or returns a job; some \<open>wait()\<close> reports completion after only
  pending reports; the shutdown of the \<open>finally\<close> clause raises nothing.
\<close>

definition connects :: "backend \<Rightarrow> jobserver \<Rightarrow> bool" where
  "connects b s \<longleftrightarrow>
     new_cluster b (cluster_count (trace s)) = None
     \<and> (\<forall>node \<in> set (node_list (options s)). discover b node = None)
     \<and> (node_list (options s) = [] \<or> 0 \<le> ping_interval (options s))"

definition submit_returns :: "backend \<Rightarrow> string \<Rightarrow> bool" where
  "submit_returns b node \<longleftrightarrow>
     (case submit b (probe_id node) node of Inl e \<Rightarrow> False | Inr j \<Rightarrow> True)"

definition null_handle :: "backend \<Rightarrow> string \<Rightarrow> bool" where
  "null_handle b node \<longleftrightarrow> submit b (probe_id node) node = Inr None"

definition submit_gives_job :: "backend \<Rightarrow> string \<Rightarrow> bool" where
  "submit_gives_job b node \<longleftrightarrow>
     (case submit b (probe_id node) node of
        Inl e \<Rightarrow> False | Inr None \<Rightarrow> False | Inr (Some j) \<Rightarrow> True)"

text \<open>The values that the submissions for a list of nodes return, position by position.\<close>

definition handles :: "backend \<Rightarrow> string list \<Rightarrow> job option list" where
  "handles b nodes =
     map (\<lambda>node. case submit b (probe_id node) node of Inl e \<Rightarrow> None | Inr j \<Rightarrow> j) nodes"

definition wait_completes :: "backend \<Rightarrow> nat \<Rightarrow> bool" where
  "wait_completes b w \<longleftrightarrow>
     (\<exists>k. (\<forall>i<k. wait_reply b (w + i) = Inr False) \<and> wait_reply b (w + k) = Inr True)"

definition shutdown_ok :: "backend \<Rightarrow> jobserver \<Rightarrow> bool" where
  "shutdown_ok b s \<longleftrightarrow> shutdown_reply b (shutdown_count (trace s)) = None"

text \<open>The outcome that the backend holds for the job of a node, if there is a job.\<close>

definition outcome_of :: "backend \<Rightarrow> string \<Rightarrow> outcome option" where
  "outcome_of b node =
     (case submit b (probe_id node) node of
        Inl e \<Rightarrow> None | Inr None \<Rightarrow> None | Inr (Some j) \<Rightarrow> Some (outcome j))"

fun is_Success :: "outcome option \<Rightarrow> bool" where
  "is_Success (Some (Success v)) = True"
| "is_Success _ = False"

text \<open>Three nodes, and backends that differ in one answer.\<close>

definition opts3 :: options where
  "opts3 = \<lparr>head_node = ''10.0.0.1'', ping_interval = 1, node_list = [''a'', ''b'', ''c'']\<rparr>"

definition fresh :: "options \<Rightarrow> jobserver" where
  "fresh opts = \<lparr>options = opts, cluster = None, tested = False, trace = []\<rparr>"

definition backend_ok :: backend where
  "backend_ok =
     \<lparr>new_cluster = (\<lambda>k. None),
      discover = (\<lambda>node. None),
      submit = (\<lambda>jid node. Inr (Some \<lparr>job_id = jid, result = node, outcome = Success node\<rparr>)),
      wait_reply = (\<lambda>k. Inr True),
      shutdown_reply = (\<lambda>k. None),
      took = ''0.1042''\<rparr>"

definition backend_job_fails :: backend where
  "backend_job_fails =
     backend_ok\<lparr>submit := (\<lambda>jid node.
        Inr (Some \<lparr>job_id = jid, result = ''None'', outcome = Failure ''NameError''\<rparr>))\<rparr>"

definition backend_null_c :: backend where
  "backend_null_c =
     backend_ok\<lparr>submit := (\<lambda>jid node.
        if node = ''c'' then Inr None
        else Inr (Some \<lparr>job_id = jid, result = node, outcome = Success node\<rparr>))\<rparr>"

definition backend_never_done :: backend where
  "backend_never_done = backend_ok\<lparr>wait_reply := (\<lambda>k. Inr False)\<rparr>"

definition backend_slow :: backend where
  "backend_slow = backend_ok\<lparr>wait_reply := (\<lambda>k. Inr (2 \<le> k))\<rparr>"

definition backend_single_shutdown :: backend where
  "backend_single_shutdown =
     backend_ok\<lparr>shutdown_reply := (\<lambda>k.
        if k = 0 then None else Some (Exception ''RuntimeError'' ''cluster is closed''))\<rparr>"

section \<open>Properties of the filename parsers\<close>

subsection \<open>The scan of \<open>re.findall\<close>\<close>

lemma findall_None:
  "match_here p s = None \<Longrightarrow> findall p s = (case s of [] \<Rightarrow> [] | c # cs \<Rightarrow> findall p cs)"
  by (subst findall.simps) simp

lemma findall_Some:
  "match_here p s = Some (gs, rest) \<Longrightarrow> \<exists>gss. findall p s = gs # gss"
  by (subst findall.simps) simp

lemma findall_Nil_iff:
  "findall p s = [] \<longleftrightarrow> (\<forall>pre t. s = pre @ t \<longrightarrow> match_here p t = None)"
proof (induction p s rule: findall.induct)
  case (1 p s)
  show ?case
  proof (cases "match_here p s")
    case None
    show ?thesis
    proof (cases s)
      case Nil
      with None show ?thesis by (simp add: findall_None)
    next
      case (Cons c cs)
      with None "1.IH"(1) have IH: "findall p cs = [] \<longleftrightarrow> (\<forall>pre t. cs = pre @ t \<longrightarrow> match_here p t = None)"
        by simp
      have "findall p s = findall p cs" using None Cons by (simp add: findall_None)
      moreover have "(\<forall>pre t. s = pre @ t \<longrightarrow> match_here p t = None) \<longleftrightarrow>
                     (\<forall>pre t. cs = pre @ t \<longrightarrow> match_here p t = None)"
      proof (intro iffI allI impI)
        fix pre t
        assume all: "\<forall>pre t. s = pre @ t \<longrightarrow> match_here p t = None" and "cs = pre @ t"
        with Cons have "s = (c # pre) @ t" by simp
        with all show "match_here p t = None" by blast
      next
        fix pre t
        assume all: "\<forall>pre t. cs = pre @ t \<longrightarrow> match_here p t = None" and s: "s = pre @ t"
        show "match_here p t = None"
        proof (cases pre)
          case Nil
          with s None show ?thesis by simp
        next
          case (Cons x pre')
          with s \<open>s = c # cs\<close> have "cs = pre' @ t" by simp
          with all show ?thesis by blast
        qed
      qed
      ultimately show ?thesis using IH by simp
    qed
  next
    case (Some a)
    then have "findall p s \<noteq> []" using findall_Some [of p s "fst a" "snd a"] by auto
    moreover have "\<not> (\<forall>pre t. s = pre @ t \<longrightarrow> match_here p t = None)"
    proof
      assume "\<forall>pre t. s = pre @ t \<longrightarrow> match_here p t = None"
      then have "s = [] @ s \<longrightarrow> match_here p s = None" by (elim allE)
      with Some show False by simp
    qed
    ultimately show ?thesis by simp
  qed
qed

lemma findall_hd:
  "findall p s = g # gss \<Longrightarrow> \<exists>pre t rest. s = pre @ t \<and> match_here p t = Some (g, rest)"
proof (induction p s rule: findall.induct)
  case (1 p s)
  show ?case
  proof (cases "match_here p s")
    case None
    show ?thesis
    proof (cases s)
      case Nil
      with None "1.prems" show ?thesis by (simp add: findall_None)
    next
      case (Cons c cs)
      with None "1.prems" have "findall p cs = g # gss" by (simp add: findall_None)
      with "1.IH"(1) None Cons obtain pre t rest where "cs = pre @ t" "match_here p t = Some (g, rest)"
        by blast
      with Cons have "s = (c # pre) @ t" by simp
      with \<open>match_here p t = Some (g, rest)\<close> show ?thesis by blast
    qed
  next
    case (Some a)
    obtain g' rest where a: "a = (g', rest)" by (cases a)
    with Some "1.prems" have "g' = g" using findall_Some [of p s g' rest] by auto
    with Some a have "s = [] @ s \<and> match_here p s = Some (g, rest)" by simp
    then show ?thesis by blast
  qed
qed

lemma length_ge_14:
  assumes "14 \<le> length t"
  shows "\<exists>c0 c1 c2 c3 d0 d1 d2 s0 p y0 y1 k q z rest.
           t = c0 # c1 # c2 # c3 # d0 # d1 # d2 # s0 # p # y0 # y1 # k # q # z # rest"
proof -
  have "Suc (Suc (Suc (Suc (Suc (Suc (Suc (Suc (Suc (Suc (Suc (Suc (Suc (Suc 0))))))))))))) \<le> length t"
    using assms by simp
  then show ?thesis
    unfolding Suc_le_length_iff by blast
qed

lemma match_crinex_short: "\<not> 14 \<le> length t \<Longrightarrow> match_here crinex_pattern t = None"
  by (simp add: crinex_pattern_def split: option.splits)

lemma match_crinex_chars:
  "match_here crinex_pattern (c0 # c1 # c2 # c3 # d0 # d1 # d2 # s0 # p # y0 # y1 # k # q # z # rest) =
     (if compressed_form [c0, c1, c2, c3, d0, d1, d2, s0, p, y0, y1, k, q, z]
         \<and> (rest = [] \<or> rest = [CHR 0x0A])
      then Some ([[c0, c1, c2, c3], [d0, d1, d2], [s0], [y0, y1], ''d''], rest) else None)"
  by (simp add: crinex_pattern_def compressed_form_def)

lemma match_crinex_iff:
  "match_here crinex_pattern t = Some (gs, rest) \<longleftrightarrow>
     14 \<le> length t \<and> compressed_form (take 14 t) \<and> rest = drop 14 t
     \<and> (rest = [] \<or> rest = [CHR 0x0A])
     \<and> gs = [take 4 t, take 3 (drop 4 t), take 1 (drop 7 t), take 2 (drop 9 t), ''d'']"
proof (cases "14 \<le> length t")
  case False
  then show ?thesis by (simp add: match_crinex_short)
next
  case True
  show ?thesis using length_ge_14 [OF True]
  proof (elim exE)
    fix c0 c1 c2 c3 d0 d1 d2 s0 p y0 y1 k q z r
    assume t: "t = c0 # c1 # c2 # c3 # d0 # d1 # d2 # s0 # p # y0 # y1 # k # q # z # r"
    have tk: "take 14 t = [c0, c1, c2, c3, d0, d1, d2, s0, p, y0, y1, k, q, z]"
      and dr: "drop 14 t = r"
      and g: "[take 4 t, take 3 (drop 4 t), take 1 (drop 7 t), take 2 (drop 9 t), ''d'']
              = [[c0, c1, c2, c3], [d0, d1, d2], [s0], [y0, y1], ''d'']"
      unfolding t by simp_all
    have m: "match_here crinex_pattern t =
       (if compressed_form (take 14 t) \<and> (r = [] \<or> r = [CHR 0x0A])
        then Some ([[c0, c1, c2, c3], [d0, d1, d2], [s0], [y0, y1], ''d''], r) else None)"
      unfolding tk unfolding t by (rule match_crinex_chars)
    show ?thesis
      unfolding m g dr using True by auto
  qed
qed

lemma length_ge_12:
  assumes "12 \<le> length t"
  shows "\<exists>c0 c1 c2 c3 d0 d1 d2 s0 p y0 y1 k rest.
           t = c0 # c1 # c2 # c3 # d0 # d1 # d2 # s0 # p # y0 # y1 # k # rest"
proof -
  have "Suc (Suc (Suc (Suc (Suc (Suc (Suc (Suc (Suc (Suc (Suc (Suc 0))))))))))) \<le> length t"
    using assms by simp
  then show ?thesis
    unfolding Suc_le_length_iff by blast
qed

lemma match_rinex_short: "\<not> 12 \<le> length t \<Longrightarrow> match_here rinex_pattern t = None"
  by (simp add: rinex_pattern_def split: option.splits)

lemma match_rinex_chars:
  "match_here rinex_pattern (c0 # c1 # c2 # c3 # d0 # d1 # d2 # s0 # p # y0 # y1 # k # rest) =
     (if plain_form [c0, c1, c2, c3, d0, d1, d2, s0, p, y0, y1, k]
         \<and> (rest = [] \<or> rest = [CHR 0x0A])
      then Some ([[c0, c1, c2, c3], [d0, d1, d2], [s0], [y0, y1], ''o''], rest) else None)"
  by (simp add: rinex_pattern_def plain_form_def)

lemma match_rinex_iff:
  "match_here rinex_pattern t = Some (gs, rest) \<longleftrightarrow>
     12 \<le> length t \<and> plain_form (take 12 t) \<and> rest = drop 12 t
     \<and> (rest = [] \<or> rest = [CHR 0x0A])
     \<and> gs = [take 4 t, take 3 (drop 4 t), take 1 (drop 7 t), take 2 (drop 9 t), ''o'']"
proof (cases "12 \<le> length t")
  case False
  then show ?thesis by (simp add: match_rinex_short)
next
  case True
  show ?thesis using length_ge_12 [OF True]
  proof (elim exE)
    fix c0 c1 c2 c3 d0 d1 d2 s0 p y0 y1 k r
    assume t: "t = c0 # c1 # c2 # c3 # d0 # d1 # d2 # s0 # p # y0 # y1 # k # r"
    have tk: "take 12 t = [c0, c1, c2, c3, d0, d1, d2, s0, p, y0, y1, k]"
      and dr: "drop 12 t = r"
      and g: "[take 4 t, take 3 (drop 4 t), take 1 (drop 7 t), take 2 (drop 9 t), ''o'']
              = [[c0, c1, c2, c3], [d0, d1, d2], [s0], [y0, y1], ''o'']"
      unfolding t by simp_all
    have m: "match_here rinex_pattern t =
       (if plain_form (take 12 t) \<and> (r = [] \<or> r = [CHR 0x0A])
        then Some ([[c0, c1, c2, c3], [d0, d1, d2], [s0], [y0, y1], ''o''], r) else None)"
      unfolding tk unfolding t by (rule match_rinex_chars)
    show ?thesis
      unfolding m g dr using True by auto
  qed
qed


text \<open>What the parsers return on a \<open>str\<close>, in terms of the scan.\<close>

lemma parse_crinex_str:
  "parse_crinex_filename (PyStr s) =
     ([], Inr (case findall crinex_pattern s of g # _ \<Rightarrow> Groups g | [] \<Rightarrow> PyNone))"
  by (simp add: parse_crinex_filename_def re_findall_def split: list.splits)

lemma parse_rinex_str:
  "parse_rinex_filename (PyStr s) =
     Inr (case findall rinex_pattern s of g # _ \<Rightarrow> Groups g | [] \<Rightarrow> EmptyList)"
  by (simp add: parse_rinex_filename_def re_findall_def split: list.splits)

lemma crinex_match_iff:
  "(\<exists>gs. parse_crinex_filename (PyStr s) = ([], Inr (Groups gs))) \<longleftrightarrow>
   (\<exists>pre m suf. s = pre @ m @ suf \<and> compressed_form m \<and> (suf = [] \<or> suf = [CHR 0x0A]))"
proof
  assume "\<exists>gs. parse_crinex_filename (PyStr s) = ([], Inr (Groups gs))"
  then obtain g gss where "findall crinex_pattern s = g # gss"
    by (auto simp: parse_crinex_str split: list.splits)
  then obtain pre t rest where s: "s = pre @ t" and m: "match_here crinex_pattern t = Some (g, rest)"
    using findall_hd by blast
  from m have "compressed_form (take 14 t)" and "drop 14 t = [] \<or> drop 14 t = [CHR 0x0A]"
    by (auto simp: match_crinex_iff)
  moreover from s have "s = pre @ take 14 t @ drop 14 t" by simp
  ultimately show "\<exists>pre m suf. s = pre @ m @ suf \<and> compressed_form m \<and> (suf = [] \<or> suf = [CHR 0x0A])"
    by blast
next
  assume "\<exists>pre m suf. s = pre @ m @ suf \<and> compressed_form m \<and> (suf = [] \<or> suf = [CHR 0x0A])"
  then obtain pre m suf where s: "s = pre @ m @ suf" and cf: "compressed_form m"
    and suf: "suf = [] \<or> suf = [CHR 0x0A]" by blast
  from cf have len: "length m = 14" by (simp add: compressed_form_def)
  then have "match_here crinex_pattern (m @ suf) \<noteq> None"
    using cf suf by (simp add: match_crinex_iff)
  with s have "findall crinex_pattern s \<noteq> []"
    by (auto simp: findall_Nil_iff)
  then show "\<exists>gs. parse_crinex_filename (PyStr s) = ([], Inr (Groups gs))"
    by (simp add: parse_crinex_str split: list.splits)
qed

lemma rinex_match_iff:
  "(\<exists>gs. parse_rinex_filename (PyStr s) = Inr (Groups gs)) \<longleftrightarrow>
   (\<exists>pre m suf. s = pre @ m @ suf \<and> plain_form m \<and> (suf = [] \<or> suf = [CHR 0x0A]))"
proof
  assume "\<exists>gs. parse_rinex_filename (PyStr s) = Inr (Groups gs)"
  then obtain g gss where "findall rinex_pattern s = g # gss"
    by (auto simp: parse_rinex_str split: list.splits)
  then obtain pre t rest where s: "s = pre @ t" and m: "match_here rinex_pattern t = Some (g, rest)"
    using findall_hd by blast
  from m have "plain_form (take 12 t)" and "drop 12 t = [] \<or> drop 12 t = [CHR 0x0A]"
    by (auto simp: match_rinex_iff)
  moreover from s have "s = pre @ take 12 t @ drop 12 t" by simp
  ultimately show "\<exists>pre m suf. s = pre @ m @ suf \<and> plain_form m \<and> (suf = [] \<or> suf = [CHR 0x0A])"
    by blast
next
  assume "\<exists>pre m suf. s = pre @ m @ suf \<and> plain_form m \<and> (suf = [] \<or> suf = [CHR 0x0A])"
  then obtain pre m suf where s: "s = pre @ m @ suf" and cf: "plain_form m"
    and suf: "suf = [] \<or> suf = [CHR 0x0A]" by blast
  from cf have len: "length m = 12" by (simp add: plain_form_def)
  then have "match_here rinex_pattern (m @ suf) \<noteq> None"
    using cf suf by (simp add: match_rinex_iff)
  with s have "findall rinex_pattern s \<noteq> []"
    by (auto simp: findall_Nil_iff)
  then show "\<exists>gs. parse_rinex_filename (PyStr s) = Inr (Groups gs)"
    by (simp add: parse_rinex_str split: list.splits)
qed

lemma crinex_whole:
  assumes "compressed_form s"
  shows "parse_crinex_filename (PyStr s) =
     ([], Inr (Groups [take 4 s, take 3 (drop 4 s), take 1 (drop 7 s), take 2 (drop 9 s), ''d'']))"
proof -
  from assms have len: "length s = 14" by (simp add: compressed_form_def)
  with assms have "match_here crinex_pattern s =
      Some ([take 4 s, take 3 (drop 4 s), take 1 (drop 7 s), take 2 (drop 9 s), ''d''], [])"
    by (simp add: match_crinex_iff)
  then obtain gss where "findall crinex_pattern s =
      [take 4 s, take 3 (drop 4 s), take 1 (drop 7 s), take 2 (drop 9 s), ''d''] # gss"
    using findall_Some by blast
  then show ?thesis by (simp add: parse_crinex_str)
qed

lemma rinex_whole:
  assumes "plain_form s"
  shows "parse_rinex_filename (PyStr s) =
     Inr (Groups [take 4 s, take 3 (drop 4 s), take 1 (drop 7 s), take 2 (drop 9 s), ''o''])"
proof -
  from assms have len: "length s = 12" by (simp add: plain_form_def)
  with assms have "match_here rinex_pattern s =
      Some ([take 4 s, take 3 (drop 4 s), take 1 (drop 7 s), take 2 (drop 9 s), ''o''], [])"
    by (simp add: match_rinex_iff)
  then obtain gss where "findall rinex_pattern s =
      [take 4 s, take 3 (drop 4 s), take 1 (drop 7 s), take 2 (drop 9 s), ''o''] # gss"
    using findall_Some by blast
  then show ?thesis by (simp add: parse_rinex_str)
qed

lemma crinex_embedded:
  assumes "parse_crinex_filename (PyStr s) = ([], Inr (Groups gs))"
  shows "\<exists>pre st doy se yr suf.
           s = pre @ st @ doy @ se @ ''.'' @ yr @ ''d.Z'' @ suf \<and> gs = [st, doy, se, yr, ''d'']
           \<and> length st = 4 \<and> length doy = 3 \<and> length se = 1 \<and> length yr = 2
           \<and> (suf = [] \<or> suf = [CHR 0x0A])"
proof -
  from assms obtain gss where "findall crinex_pattern s = gs # gss"
    by (auto simp: parse_crinex_str split: list.splits)
  then obtain pre t rest where s: "s = pre @ t" and m: "match_here crinex_pattern t = Some (gs, rest)"
    using findall_hd by blast
  from m have len: "14 \<le> length t" and cf: "compressed_form (take 14 t)"
    and rest: "drop 14 t = [] \<or> drop 14 t = [CHR 0x0A]"
    and gs: "gs = [take 4 t, take 3 (drop 4 t), take 1 (drop 7 t), take 2 (drop 9 t), ''d'']"
    by (auto simp: match_crinex_iff)
  from len obtain c0 c1 c2 c3 d0 d1 d2 s0 p y0 y1 k q z r where
    t: "t = c0 # c1 # c2 # c3 # d0 # d1 # d2 # s0 # p # y0 # y1 # k # q # z # r"
    using length_ge_14 [OF len] by (elim exE) simp
  from cf have lits: "p = CHR ''.''" "k = CHR ''d''" "q = CHR ''.''" "z = CHR ''Z''"
    unfolding t by (simp_all add: compressed_form_def)
  have "s = pre @ [c0, c1, c2, c3] @ [d0, d1, d2] @ [s0] @ ''.'' @ [y0, y1] @ ''d.Z'' @ r"
    using s lits unfolding t by simp
  moreover have "gs = [[c0, c1, c2, c3], [d0, d1, d2], [s0], [y0, y1], ''d'']"
    unfolding gs t by simp
  moreover have "r = [] \<or> r = [CHR 0x0A]" using rest unfolding t by simp
  ultimately show ?thesis
    by (intro exI [of _ pre] exI [of _ "[c0, c1, c2, c3]"] exI [of _ "[d0, d1, d2]"]
          exI [of _ "[s0]"] exI [of _ "[y0, y1]"] exI [of _ r]) simp
qed

lemma rinex_embedded:
  assumes "parse_rinex_filename (PyStr s) = Inr (Groups gs)"
  shows "\<exists>pre st doy se yr suf.
           s = pre @ st @ doy @ se @ ''.'' @ yr @ ''o'' @ suf \<and> gs = [st, doy, se, yr, ''o'']
           \<and> length st = 4 \<and> length doy = 3 \<and> length se = 1 \<and> length yr = 2
           \<and> (suf = [] \<or> suf = [CHR 0x0A])"
proof -
  from assms obtain gss where "findall rinex_pattern s = gs # gss"
    by (auto simp: parse_rinex_str split: list.splits)
  then obtain pre t rest where s: "s = pre @ t" and m: "match_here rinex_pattern t = Some (gs, rest)"
    using findall_hd by blast
  from m have len: "12 \<le> length t" and cf: "plain_form (take 12 t)"
    and rest: "drop 12 t = [] \<or> drop 12 t = [CHR 0x0A]"
    and gs: "gs = [take 4 t, take 3 (drop 4 t), take 1 (drop 7 t), take 2 (drop 9 t), ''o'']"
    by (auto simp: match_rinex_iff)
  from len obtain c0 c1 c2 c3 d0 d1 d2 s0 p y0 y1 k r where
    t: "t = c0 # c1 # c2 # c3 # d0 # d1 # d2 # s0 # p # y0 # y1 # k # r"
    using length_ge_12 [OF len] by (elim exE) simp
  from cf have lits: "p = CHR ''.''" "k = CHR ''o''"
    unfolding t by (simp_all add: plain_form_def)
  have "s = pre @ [c0, c1, c2, c3] @ [d0, d1, d2] @ [s0] @ ''.'' @ [y0, y1] @ ''o'' @ r"
    using s lits unfolding t by simp
  moreover have "gs = [[c0, c1, c2, c3], [d0, d1, d2], [s0], [y0, y1], ''o'']"
    unfolding gs t by simp
  moreover have "r = [] \<or> r = [CHR 0x0A]" using rest unfolding t by simp
  ultimately show ?thesis
    by (intro exI [of _ pre] exI [of _ "[c0, c1, c2, c3]"] exI [of _ "[d0, d1, d2]"]
          exI [of _ "[s0]"] exI [of _ "[y0, y1]"] exI [of _ r]) simp
qed

text \<open>A non-string argument takes the handler of \<open>parse_crinex_filename\<close> and exits.\<close>

lemma parse_crinex_non_str:
  "parse_crinex_filename PyNonStr =
     ([''Uncaught exception: '' @ type_repr ''TypeError'' @ '' expected string or bytes-like object''],
      Inl (SystemExit 1))"
  by (simp add: parse_crinex_filename_def re_findall_def uncaught_line_def)

subsection \<open>Claims about the filename parsers\<close>

text \<open>
  C6, as stated, fails: the patterns end in \<open>$\<close> but do not begin with \<open>^\<close>, and
  \<open>re.findall\<close> searches. A name with a character in front of an otherwise valid
  compressed name is parsed, with the station code taken from behind that character,
  although the whole name has neither form.
\<close>

theorem leading_character_counterexample:
  "parse_crinex_filename (PyStr ''xabcd001a.21d.Z'')
     = ([], Inr (Groups [''abcd'', ''001'', ''a'', ''21'', ''d'']))
   \<and> \<not> compressed_form ''xabcd001a.21d.Z'' \<and> \<not> plain_form ''xabcd001a.21d.Z''"
  by code_simp

text \<open>
  C6, amended: both grammars are anchored at the end of the filename only. A parser
  reports a match if and only if the filename consists of any prefix, then fourteen
  (compressed) or twelve (plain) characters of the form of its grammar, with the literal
  letters \<open>d\<close>, \<open>Z\<close> and \<open>o\<close> in exactly that case, then nothing or one final newline.
\<close>

theorem grammars_anchored_at_end:
  "((\<exists>gs. parse_crinex_filename (PyStr s) = ([], Inr (Groups gs))) \<longleftrightarrow>
      (\<exists>pre m suf. s = pre @ m @ suf \<and> compressed_form m \<and> (suf = [] \<or> suf = [CHR 0x0A])))
   \<and> ((\<exists>gs. parse_rinex_filename (PyStr s) = Inr (Groups gs)) \<longleftrightarrow>
      (\<exists>pre m suf. s = pre @ m @ suf \<and> plain_form m \<and> (suf = [] \<or> suf = [CHR 0x0A])))"
  using crinex_match_iff [of s] rinex_match_iff [of s] by (rule conjI)

theorem grammars_anchored_at_end_witness:
  "\<exists>gs. parse_crinex_filename (PyStr (''2021/abcd001a.21d.Z'' @ [CHR 0x0A])) = ([], Inr (Groups gs))"
proof -
  have "compressed_form ''abcd001a.21d.Z''" by code_simp
  then have "\<exists>pre m suf. ''2021/abcd001a.21d.Z'' @ [CHR 0x0A] = pre @ m @ suf \<and> compressed_form m
      \<and> (suf = [] \<or> suf = [CHR 0x0A])"
    by (intro exI [of _ "''2021/''"] exI [of _ "''abcd001a.21d.Z''"] exI [of _ "[CHR 0x0A]"]) simp
  with grammars_anchored_at_end [of "''2021/abcd001a.21d.Z'' @ [CHR 0x0A]"] show ?thesis
    by blast
qed

text \<open>
  C7: a string that has the form of a grammar is parsed into exactly the substrings at
  the fixed positions 0 to 3 (station code), 4 to 6 (day of year), 7 (session letter) and
  9 to 10 (two-digit year), followed by the compression letter. More generally, whenever
  a parser reports a match, the fields it returns stand next to each other in the
  filename, separated by the literal characters of the grammar, so that the filename is
  rebuilt from them.
\<close>

theorem classify_round_trip:
  "(compressed_form s \<longrightarrow>
      parse_crinex_filename (PyStr s) =
        ([], Inr (Groups [take 4 s, take 3 (drop 4 s), take 1 (drop 7 s), take 2 (drop 9 s), ''d''])))
   \<and> (plain_form s \<longrightarrow>
      parse_rinex_filename (PyStr s) =
        Inr (Groups [take 4 s, take 3 (drop 4 s), take 1 (drop 7 s), take 2 (drop 9 s), ''o'']))
   \<and> (parse_crinex_filename (PyStr s) = ([], Inr (Groups gs)) \<longrightarrow>
      (\<exists>pre st doy se yr suf.
          s = pre @ st @ doy @ se @ ''.'' @ yr @ ''d.Z'' @ suf \<and> gs = [st, doy, se, yr, ''d'']
          \<and> length st = 4 \<and> length doy = 3 \<and> length se = 1 \<and> length yr = 2
          \<and> (suf = [] \<or> suf = [CHR 0x0A])))
   \<and> (parse_rinex_filename (PyStr s) = Inr (Groups gs) \<longrightarrow>
      (\<exists>pre st doy se yr suf.
          s = pre @ st @ doy @ se @ ''.'' @ yr @ ''o'' @ suf \<and> gs = [st, doy, se, yr, ''o'']
          \<and> length st = 4 \<and> length doy = 3 \<and> length se = 1 \<and> length yr = 2
          \<and> (suf = [] \<or> suf = [CHR 0x0A])))"
  using crinex_whole [of s] rinex_whole [of s] crinex_embedded [of s gs] rinex_embedded [of s gs]
  by blast

theorem classify_round_trip_witness:
  "compressed_form ''abcd001a.21d.Z''
   \<and> parse_crinex_filename (PyStr ''abcd001a.21d.Z'')
       = ([], Inr (Groups [''abcd'', ''001'', ''a'', ''21'', ''d'']))
   \<and> plain_form ''abcd001a.21o''
   \<and> parse_rinex_filename (PyStr ''abcd001a.21o'')
       = Inr (Groups [''abcd'', ''001'', ''a'', ''21'', ''o''])"
proof -
  have c: "compressed_form ''abcd001a.21d.Z''" by code_simp
  have p: "plain_form ''abcd001a.21o''" by code_simp
  from c classify_round_trip [of "''abcd001a.21d.Z''"]
  have "parse_crinex_filename (PyStr ''abcd001a.21d.Z'')
       = ([], Inr (Groups [''abcd'', ''001'', ''a'', ''21'', ''d'']))" by simp
  moreover from p classify_round_trip [of "''abcd001a.21o''"]
  have "parse_rinex_filename (PyStr ''abcd001a.21o'')
       = Inr (Groups [''abcd'', ''001'', ''a'', ''21'', ''o''])" by simp
  ultimately show ?thesis using c p by simp
qed

text \<open>
  C8: on every string, the empty one included, \<open>parse_crinex_filename\<close> prints nothing
  and returns \<open>None\<close> or a tuple of groups, and \<open>parse_rinex_filename\<close> returns the empty
  list or a tuple of groups; neither raises, and the handler of \<open>parse_crinex_filename\<close>
  with its \<open>sys.exit(1)\<close> is not taken. (The handler is taken on an argument that is
  not a string, see \<open>parse_crinex_non_str\<close>.)
\<close>

theorem parsers_total_on_strings:
  "(parse_crinex_filename (PyStr s) = ([], Inr PyNone)
      \<or> (\<exists>gs. parse_crinex_filename (PyStr s) = ([], Inr (Groups gs))))
   \<and> (parse_rinex_filename (PyStr s) = Inr EmptyList
      \<or> (\<exists>gs. parse_rinex_filename (PyStr s) = Inr (Groups gs)))"
  by (simp add: parse_crinex_str parse_rinex_str split: list.splits)

section \<open>Properties of the archive scan\<close>

lemma crinex_named_truthy:
  "parse_crinex_filename (PyStr n) = (out, Inr v) \<Longrightarrow> crinex_named (DirEntry rootdir n) = truthy v"
  by (simp add: crinex_named_def DirEntry_def)

lemma scan_readable:
  "readable d \<Longrightarrow>
     scan_archive_struct rootdir d = ([], Inr (filter crinex_named (files_in rootdir d)))"
  "readable_nodes es \<Longrightarrow>
     scan_entries rootdir es acc = ([], Inr (acc @ filter crinex_named (files_among rootdir es)))"
proof (induction rootdir d and rootdir es acc rule: scan_archive_struct_scan_entries.induct)
  case (1 rootdir cls msg)
  then show ?case by simp
next
  case (2 rootdir es)
  then show ?case by simp
next
  case (3 rootdir acc)
  then show ?case by simp
next
  case (4 rootdir n d es acc)
  from "4.prems" have rd: "readable d" and res: "readable_nodes es" by simp_all
  from "4.IH"(1) [OF rd] have sub: "scan_archive_struct (path_join rootdir n) d =
      ([], Inr (filter crinex_named (files_in (path_join rootdir n) d)))" .
  from "4.IH"(2) [OF sub [symmetric] refl res]
  have "scan_entries rootdir es (acc @ filter crinex_named (files_in (path_join rootdir n) d)) =
      ([], Inr ((acc @ filter crinex_named (files_in (path_join rootdir n) d))
                 @ filter crinex_named (files_among rootdir es)))" .
  with sub show ?case by simp
next
  case (5 rootdir n es acc)
  from "5.prems" have res: "readable_nodes es" by simp
  obtain v where p: "parse_crinex_filename (PyStr n) = ([], Inr v)"
    by (simp add: parse_crinex_str)
  have nm: "crinex_named (DirEntry rootdir n) = truthy v"
    using p by (rule crinex_named_truthy)
  from "5.IH" [OF p [symmetric] refl res]
  have "scan_entries rootdir es (if truthy v then acc @ [DirEntry rootdir n] else acc) =
      ([], Inr ((if truthy v then acc @ [DirEntry rootdir n] else acc)
                 @ filter crinex_named (files_among rootdir es)))" .
  with p nm show ?case by simp
qed

lemma readable_iff:
  "readable d \<longleftrightarrow> first_failure d = None"
  "readable_nodes es \<longleftrightarrow> first_failure_nodes es = None"
  by (induction d and es rule: readable_readable_nodes.induct) (auto split: option.splits)

lemma scan_failure:
  "first_failure d = Some (cls, msg) \<Longrightarrow>
     scan_archive_struct rootdir d =
       ([uncaught_line ''Uncaught Exception: '' (Exception cls msg)], Inl (SystemExit 1))"
  "first_failure_nodes es = Some (cls, msg) \<Longrightarrow>
     scan_entries rootdir es acc =
       ([uncaught_line ''Uncaught Exception: '' (Exception cls msg)], Inl (SystemExit 1))"
proof (induction rootdir d and rootdir es acc rule: scan_archive_struct_scan_entries.induct)
  case (1 rootdir cls' msg')
  then show ?case by (simp add: scan_handler_def)
next
  case (2 rootdir es)
  then show ?case by (simp add: scan_handler_def)
next
  case (3 rootdir acc)
  then show ?case by simp
next
  case (4 rootdir n d es acc)
  show ?case
  proof (cases "first_failure d")
    case (Some f)
    with "4.prems" have "first_failure d = Some (cls, msg)" by simp
    from "4.IH"(1) [OF this] show ?thesis by simp
  next
    case None
    then have "readable d" by (simp add: readable_iff)
    then have sub: "scan_archive_struct (path_join rootdir n) d =
        ([], Inr (filter crinex_named (files_in (path_join rootdir n) d)))"
      by (rule scan_readable)
    from None "4.prems" have ff: "first_failure_nodes es = Some (cls, msg)" by simp
    from "4.IH"(2) [OF sub [symmetric] refl ff] sub show ?thesis by simp
  qed
next
  case (5 rootdir n es acc)
  from "5.prems" have ff: "first_failure_nodes es = Some (cls, msg)" by simp
  obtain v where p: "parse_crinex_filename (PyStr n) = ([], Inr v)"
    by (simp add: parse_crinex_str)
  from "5.IH" [OF p [symmetric] refl ff] p show ?case by simp
qed

lemma reordered_files:
  "reordered d d' \<Longrightarrow>
     mset (files_in rootdir d) = mset (files_in rootdir d') \<and> readable d = readable d'"
  "reordered_nodes es es' \<Longrightarrow>
     mset (files_among rootdir es) = mset (files_among rootdir es')
     \<and> readable_nodes es = readable_nodes es'"
proof (induction d d' and es es' arbitrary: rootdir and rootdir rule: reordered_reordered_nodes.inducts)
  case (swapped x y es)
  show ?case by (cases x; cases y) auto
qed auto

lemma crinex_named_iff:
  "crinex_named e \<longleftrightarrow>
     (\<exists>pre m suf. name e = pre @ m @ suf \<and> compressed_form m \<and> (suf = [] \<or> suf = [CHR 0x0A]))"
proof -
  have "crinex_named e \<longleftrightarrow> (\<exists>gs. parse_crinex_filename (PyStr (name e)) = ([], Inr (Groups gs)))"
  proof
    assume "crinex_named e"
    then show "\<exists>gs. parse_crinex_filename (PyStr (name e)) = ([], Inr (Groups gs))"
      by (auto simp: crinex_named_def parse_crinex_str split: list.splits)
  next
    assume "\<exists>gs. parse_crinex_filename (PyStr (name e)) = ([], Inr (Groups gs))"
    then obtain gs where p: "parse_crinex_filename (PyStr (name e)) = ([], Inr (Groups gs))" ..
    then have "gs \<noteq> []" using crinex_embedded [OF p] by auto
    with p show "crinex_named e" by (simp add: crinex_named_def)
  qed
  then show ?thesis by (simp add: crinex_match_iff)
qed

subsection \<open>Claims about the archive scan\<close>

text \<open>
  C4, as stated, fails: a sub-directory that cannot be listed ends the whole scan. The
  recursive call prints the exception and calls \<open>sys.exit(1)\<close>; the \<open>SystemExit\<close> passes
  through the handlers of the callers, so nothing is returned, although the
  directories \<open>a\<close> and \<open>b\<close> beside the unreadable one hold matching files.
\<close>

theorem locked_subdir_counterexample:
  "scan_archive_struct ''root'' tree_locked =
     ([''Uncaught Exception: '' @ type_repr ''PermissionError'' @ '' [Errno 13] Permission denied''],
      Inl (SystemExit 1))
   \<and> files_in ''root'' tree_locked =
       [DirEntry ''root/a'' ''abcd001a.21d.Z'', DirEntry ''root/b'' ''efgh002a.21d.Z'']"
  by code_simp

text \<open>
  C4, amended: for every directory tree in which some directory cannot be listed, the
  scan prints one line for the first such directory in traversal order and leaves by
  \<open>sys.exit(1)\<close>; it records no error entry, does not go on to the sibling subtrees and
  returns no entries.
\<close>

theorem unreadable_directory_exits:
  assumes "\<not> readable d"
  shows "\<exists>cls msg. first_failure d = Some (cls, msg)
           \<and> scan_archive_struct rootdir d =
               ([uncaught_line ''Uncaught Exception: '' (Exception cls msg)], Inl (SystemExit 1))"
proof -
  from assms obtain cls msg where f: "first_failure d = Some (cls, msg)"
    by (cases "first_failure d") (auto simp: readable_iff)
  then show ?thesis using scan_failure(1) [OF f] by blast
qed

theorem unreadable_directory_exits_witness:
  "\<not> readable tree_locked
   \<and> (\<exists>cls msg. first_failure tree_locked = Some (cls, msg)
        \<and> scan_archive_struct ''root'' tree_locked =
            ([uncaught_line ''Uncaught Exception: '' (Exception cls msg)], Inl (SystemExit 1)))"
proof -
  have h: "\<not> readable tree_locked" by code_simp
  from unreadable_directory_exits [OF h, of "''root''"] h show ?thesis by blast
qed

text \<open>
  C5, as stated, fails: the scan applies \<open>parse_crinex_filename\<close> only. A file whose name
  has the plain form is not returned.
\<close>

theorem plain_file_counterexample:
  "plain_form ''abcd001a.21o''
   \<and> files_in ''root'' tree_plain = [DirEntry ''root'' ''abcd001a.21o'']
   \<and> scan_archive_struct ''root'' tree_plain = ([], Inr [])"
  by code_simp

text \<open>
  C5, amended: for every directory tree all of whose directories can be listed, with
  \<open>N\<close> files whose names are accepted by the compressed grammar (as
  \<open>parse_crinex_filename\<close> accepts them: ending in the compressed form) and any other
  files, arbitrarily nested, the scan prints nothing and returns exactly the entries of
  those \<open>N\<close> files, in traversal order; the other files, those of the plain form
  included, are skipped silently. A tree that lists the same entries in another order
  gives the same entries up to order.
\<close>

theorem scan_returns_compressed_files:
  assumes "readable d"
  shows "scan_archive_struct rootdir d = ([], Inr (filter crinex_named (files_in rootdir d)))
    \<and> (\<forall>e. crinex_named e \<longleftrightarrow>
          (\<exists>pre m suf. name e = pre @ m @ suf \<and> compressed_form m \<and> (suf = [] \<or> suf = [CHR 0x0A])))
    \<and> (reordered d d' \<longrightarrow>
          (\<exists>ents. scan_archive_struct rootdir d' = ([], Inr ents)
             \<and> mset ents = mset (filter crinex_named (files_in rootdir d))))"
proof (intro conjI allI impI)
  show "scan_archive_struct rootdir d = ([], Inr (filter crinex_named (files_in rootdir d)))"
    using assms by (rule scan_readable)
next
  fix e
  show "crinex_named e \<longleftrightarrow>
     (\<exists>pre m suf. name e = pre @ m @ suf \<and> compressed_form m \<and> (suf = [] \<or> suf = [CHR 0x0A]))"
    by (rule crinex_named_iff)
next
  assume r: "reordered d d'"
  from reordered_files(1) [OF r, of rootdir] assms
  have m: "mset (files_in rootdir d) = mset (files_in rootdir d')" and rd: "readable d'"
    by simp_all
  from rd have "scan_archive_struct rootdir d' = ([], Inr (filter crinex_named (files_in rootdir d')))"
    by (rule scan_readable)
  moreover have "mset (filter crinex_named (files_in rootdir d'))
      = mset (filter crinex_named (files_in rootdir d))"
    using m by (simp add: mset_filter)
  ultimately show "\<exists>ents. scan_archive_struct rootdir d' = ([], Inr ents)
             \<and> mset ents = mset (filter crinex_named (files_in rootdir d))"
    by simp
qed

theorem scan_returns_compressed_files_witness:
  "readable tree_mixed \<and> reordered tree_mixed tree_mixed_reordered
   \<and> scan_archive_struct ''root'' tree_mixed =
       ([], Inr [DirEntry ''root'' ''abcd001a.21d.Z'', DirEntry ''root/2021'' ''efgh002a.21d.Z'',
                 DirEntry ''root/2021/003'' ''ijkl003a.21d.Z''])
   \<and> (\<exists>ents. scan_archive_struct ''root'' tree_mixed_reordered = ([], Inr ents)
        \<and> mset ents = mset [DirEntry ''root'' ''abcd001a.21d.Z'', DirEntry ''root/2021'' ''efgh002a.21d.Z'',
                 DirEntry ''root/2021/003'' ''ijkl003a.21d.Z''])"
proof -
  have h: "readable tree_mixed" by code_simp
  have r: "reordered tree_mixed tree_mixed_reordered"
    unfolding tree_mixed_def tree_mixed_reordered_def
    by (rule same_listing) (rule swapped)
  have f: "filter crinex_named (files_in ''root'' tree_mixed) =
      [DirEntry ''root'' ''abcd001a.21d.Z'', DirEntry ''root/2021'' ''efgh002a.21d.Z'',
       DirEntry ''root/2021/003'' ''ijkl003a.21d.Z'']"
    by code_simp
  from scan_returns_compressed_files [OF h, of "''root''" tree_mixed_reordered] h r
  show ?thesis unfolding f by simp
qed


end
